theory Spec2Isabelle
  imports Main
begin

unbundle bit_operations_syntax

section \<open>Levels\<close>

text \<open>
  The Go source declares \<^verbatim>\<open>type Level int\<close> and five constants numbered by
  \<^verbatim>\<open>iota\<close>, starting with \<^verbatim>\<open>DisabledLevel\<close> at 0. A level is therefore any
  integer; the five constants are particular values of it.
\<close>

type_synonym Level = int

definition DisabledLevel :: Level where "DisabledLevel = 0"
definition ErrorLevel :: Level where "ErrorLevel = 1"
definition WarnLevel :: Level where "WarnLevel = 2"
definition InfoLevel :: Level where "InfoLevel = 3"
definition DebugLevel :: Level where "DebugLevel = 4"

text \<open>The five levels the source defines, in their declared order.\<close>

definition definedLevels :: "Level list" where
  "definedLevels = [DisabledLevel, ErrorLevel, WarnLevel, InfoLevel, DebugLevel]"

text \<open>
  A Go \<^verbatim>\<open>error\<close> is an interface value; \<^verbatim>\<open>nil\<close> is \<open>None\<close>. \<open>ErrorString\<close> carries the
  text that \<^verbatim>\<open>fmt.Errorf\<close> produced. \<open>InvalidLevelValue\<close> is the error of the
  level validation, which names the offending number.
\<close>

datatype error = ErrorString string | InvalidLevelValue int

text \<open>
  \<^verbatim>\<open>levelOfStr\<close>: the switch over the five literals. The variable \<^verbatim>\<open>level\<close>
  starts as \<^verbatim>\<open>InfoLevel\<close>, and the default branch returns it unchanged with the
  error built by
  \<^verbatim>\<open>fmt.Errorf("invalid log level: %s; use one of: disabled | error | warning | info | debug ", s)\<close>.
\<close>

definition levelOfStr :: "string \<Rightarrow> Level \<times> error option" where
  "levelOfStr s =
     (let level = InfoLevel in
      if s = ''disabled'' then (DisabledLevel, None)
      else if s = ''error'' then (ErrorLevel, None)
      else if s = ''warning'' then (WarnLevel, None)
      else if s = ''info'' then (InfoLevel, None)
      else if s = ''debug'' then (DebugLevel, None)
      else (level,
            Some (ErrorString (''invalid log level: '' @ s @
                               ''; use one of: disabled | error | warning | info | debug ''))))"

text \<open>
  Modelled from the spec: the method \<^verbatim>\<open>Level.String\<close> (the spec's \<open>toString\<close>) is
  called by the tests but is not among the source files. The spec: the inverse
  mapping for the five valid levels, and the empty string for every other value.
  The strings are those of the test table \<^verbatim>\<open>testValidMap\<close>.
\<close>

definition Level_String :: "Level \<Rightarrow> string" where
  "Level_String l =
     (if l = DisabledLevel then ''disabled''
      else if l = ErrorLevel then ''error''
      else if l = WarnLevel then ''warning''
      else if l = InfoLevel then ''info''
      else if l = DebugLevel then ''debug''
      else '''')"

text \<open>
  Modelled from the spec: the method \<^verbatim>\<open>Level.Validate\<close> (the spec's \<open>validate\<close>) is
  called by the tests but is not among the source files. The spec: it succeeds for
  the five defined levels and fails for every other value, with an error naming the
  invalid numeric value.
\<close>

definition Level_Validate :: "Level \<Rightarrow> error option" where
  "Level_Validate l =
     (if l \<in> set definedLevels then None else Some (InvalidLevelValue l))"

section \<open>The platform: writers, the clock, the process\<close>

text \<open>
  An \<^verbatim>\<open>io.Writer\<close> is one of the destinations a line can reach: the persistent
  sink handed to \<^verbatim>\<open>New\<close>, \<^verbatim>\<open>ioutil.Discard\<close>, the two console streams, or an
  \<^verbatim>\<open>io.MultiWriter\<close> over several writers.
\<close>

datatype writer = Sink | Discard | Stdout | Stderr | MultiWriter "writer list"

text \<open>
  What has been written so far to the persistent sink and to the two console
  streams, and for each of the three whether it refuses what it is given. A
  \<^verbatim>\<open>Write\<close> returns the world and whether it succeeded (\<open>True\<close> is a \<^verbatim>\<open>nil\<close>
  error). A destination that accepts appends the bytes; one that refuses is
  taken to stay as it was. \<^verbatim>\<open>ioutil.Discard\<close> always succeeds. An
  \<^verbatim>\<open>io.MultiWriter\<close> writes to its members in order and returns at the first
  one that fails, leaving the members after it unwritten.
\<close>

record world =
  sink_bytes :: string
  stdout_bytes :: string
  stderr_bytes :: string
  sink_fails :: bool
  stdout_fails :: bool
  stderr_fails :: bool

fun Write :: "writer \<Rightarrow> string \<Rightarrow> world \<Rightarrow> world \<times> bool"
  and multiWrite :: "writer list \<Rightarrow> string \<Rightarrow> world \<Rightarrow> world \<times> bool" where
  "Write Sink p wd =
     (if sink_fails wd then (wd, False)
      else (wd\<lparr>sink_bytes := sink_bytes wd @ p\<rparr>, True))"
| "Write Discard p wd = (wd, True)"
| "Write Stdout p wd =
     (if stdout_fails wd then (wd, False)
      else (wd\<lparr>stdout_bytes := stdout_bytes wd @ p\<rparr>, True))"
| "Write Stderr p wd =
     (if stderr_fails wd then (wd, False)
      else (wd\<lparr>stderr_bytes := stderr_bytes wd @ p\<rparr>, True))"
| "Write (MultiWriter ws) p wd = multiWrite ws p wd"
| "multiWrite [] p wd = (wd, True)"
| "multiWrite (x # xs) p wd =
     (case Write x p wd of
        (wd', False) \<Rightarrow> (wd', False)
      | (wd', True) \<Rightarrow> multiWrite xs p wd')"

text \<open>
  A call either returns to its caller or ends the process with an exit status
  (\<^verbatim>\<open>os.Exit\<close>); in both cases the world is what was written until then.
\<close>

datatype outcome = Returns world | Exits int world


text \<open>
  What a call reads from its surroundings: the process id (\<^verbatim>\<open>os.Getpid\<close>), the
  answer of \<^verbatim>\<open>runtime.Caller(3)\<close> (file and line, \<open>None\<close> when \<^verbatim>\<open>ok\<close> is false),
  the local date and time as the \<^verbatim>\<open>log\<close> package prints them, and
  \<^verbatim>\<open>fmt.Sprintf\<close>, whose placeholder handling is left open.
\<close>

datatype arg = Str string | Val string

record env =
  Getpid :: int
  Caller :: "(string \<times> int) option"
  Now_date :: string
  Now_time :: string
  Sprintf :: "string \<Rightarrow> arg list \<Rightarrow> string"

text \<open>Decimal digits, as \<^verbatim>\<open>%d\<close> prints an integer.\<close>

definition digit :: "nat \<Rightarrow> char" where
  "digit d = (if d = 0 then CHR ''0'' else if d = 1 then CHR ''1''
     else if d = 2 then CHR ''2'' else if d = 3 then CHR ''3''
     else if d = 4 then CHR ''4'' else if d = 5 then CHR ''5''
     else if d = 6 then CHR ''6'' else if d = 7 then CHR ''7''
     else if d = 8 then CHR ''8'' else CHR ''9'')"

fun decimal :: "nat \<Rightarrow> string" where
  "decimal n =
     (if n < 10 then [digit n] else decimal (n div 10) @ [digit (n mod 10)])"

declare decimal.simps [simp del]

definition fmt_d :: "int \<Rightarrow> string" where
  "fmt_d i = (if 0 \<le> i then decimal (nat i) else CHR ''-'' # decimal (nat (- i)))"

text \<open>
  \<^verbatim>\<open>fmt.Sprint\<close>: an argument is a string (\<open>Str\<close>) or a value of another kind,
  given by its default rendering (\<open>Val\<close>). A space goes between two neighbours
  when neither is a string. \<open>doPrint first prevString\<close> is the loop of the
  standard library, \<open>first\<close> standing for \<^verbatim>\<open>argNum == 0\<close>.
\<close>

fun isString :: "arg \<Rightarrow> bool" where
  "isString (Str s) = True"
| "isString (Val s) = False"

fun printArg :: "arg \<Rightarrow> string" where
  "printArg (Str s) = s"
| "printArg (Val s) = s"

fun doPrint :: "bool \<Rightarrow> bool \<Rightarrow> arg list \<Rightarrow> string" where
  "doPrint first prevString [] = []"
| "doPrint first prevString (a # as) =
     (if \<not> first \<and> \<not> isString a \<and> \<not> prevString then '' '' else []) @
     printArg a @ doPrint False (isString a) as"

definition Sprint :: "arg list \<Rightarrow> string" where
  "Sprint as = doPrint True False as"

section \<open>The standard logger\<close>

text \<open>
  A \<^verbatim>\<open>log.Logger\<close> of the standard library: an output, a prefix and the flags.
  Of the flags only \<^verbatim>\<open>Ldate\<close> and \<^verbatim>\<open>Ltime\<close> occur in the source. \<open>Output\<close>
  writes the prefix, the date and the time (each followed by a space), the
  message, and a newline when the message does not end in one, in one write,
  and returns the result of that write. \<open>Print\<close> and \<open>Fatal\<close> drop that result:
  \<open>Print\<close> returns after the write, \<open>Fatal\<close> calls \<^verbatim>\<open>os.Exit(1)\<close> after it.
\<close>

record log_Logger =
  log_prefix :: string
  log_flag :: nat
  log_out :: writer

definition Ldate :: nat where "Ldate = 1"
definition Ltime :: nat where "Ltime = 2"

definition log_New :: "writer \<Rightarrow> string \<Rightarrow> nat \<Rightarrow> log_Logger" where
  "log_New out pre flag = \<lparr>log_prefix = pre, log_flag = flag, log_out = out\<rparr>"

definition formatHeader :: "env \<Rightarrow> string \<Rightarrow> nat \<Rightarrow> string" where
  "formatHeader e pre flag =
     pre @ (if flag AND Ldate \<noteq> 0 then Now_date e @ '' '' else [])
         @ (if flag AND Ltime \<noteq> 0 then Now_time e @ '' '' else [])"

definition terminated :: "string \<Rightarrow> string" where
  "terminated s = (if s = [] \<or> last s \<noteq> CHR 0x0A then s @ [CHR 0x0A] else s)"

definition log_Output :: "env \<Rightarrow> log_Logger \<Rightarrow> string \<Rightarrow> world \<Rightarrow> world \<times> bool" where
  "log_Output e lg s wd =
     Write (log_out lg) (formatHeader e (log_prefix lg) (log_flag lg) @ terminated s) wd"

definition log_Print :: "env \<Rightarrow> log_Logger \<Rightarrow> arg list \<Rightarrow> world \<Rightarrow> outcome" where
  "log_Print e lg v wd = Returns (fst (log_Output e lg (Sprint v) wd))"

definition log_Fatal :: "env \<Rightarrow> log_Logger \<Rightarrow> arg list \<Rightarrow> world \<Rightarrow> outcome" where
  "log_Fatal e lg v wd = Exits 1 (fst (log_Output e lg (Sprint v) wd))"

section \<open>The logger\<close>

text \<open>
  The struct \<^verbatim>\<open>logger\<close>: the level, the sink as given (\<open>None\<close> is \<^verbatim>\<open>nil\<close>), the
  verbose flag, and one pointer to a standard logger per severity, \<open>None\<close> while
  it is \<^verbatim>\<open>nil\<close>.
\<close>

record logger =
  level :: Level
  w :: "writer option"
  verbose :: bool
  debug :: "log_Logger option"
  info :: "log_Logger option"
  warn :: "log_Logger option"
  error :: "log_Logger option"
  fatal :: "log_Logger option"

text \<open>
  \<^verbatim>\<open>New\<close>: the struct literal sets \<^verbatim>\<open>w\<close> and \<^verbatim>\<open>verbose\<close> and leaves the other
  fields at their zero values. A level string that does not parse returns this
  struct with the error at once. Otherwise the writers are built from the most
  severe down, and the function returns as soon as the configured level is
  reached.
\<close>

definition New :: "writer option \<Rightarrow> string \<Rightarrow> bool \<Rightarrow> logger \<times> error option" where
  "New wr lvl verb =
     (let l = \<lparr>level = 0, w = wr, verbose = verb, debug = None, info = None,
               warn = None, error = None, fatal = None\<rparr>
      in case levelOfStr lvl of
           (lv, Some err) \<Rightarrow> (l, Some err)
         | (lv, None) \<Rightarrow>
             (let l = l\<lparr>level := lv\<rparr>;
                  flags = Ldate OR Ltime;
                  storage = (case wr of None \<Rightarrow> Discard | Some x \<Rightarrow> x);
                  multiOut = MultiWriter [storage, Stdout];
                  multiErr = MultiWriter [storage, Stderr];
                  l = l\<lparr>fatal := Some (log_New multiErr ''FATAL: '' flags)\<rparr>
              in if level l = DisabledLevel then (l, None)
                 else
                   (let l = l\<lparr>error := Some (log_New multiErr ''ERROR: '' flags)\<rparr>
                    in if level l = ErrorLevel then (l, None)
                       else
                         (let l = l\<lparr>warn := Some (log_New multiErr ''WARN:  '' flags)\<rparr>
                          in if level l = WarnLevel then (l, None)
                             else
                               (let l = l\<lparr>info := Some (log_New storage ''INFO:  '' flags)\<rparr>;
                                    l = (if verbose l
                                         then l\<lparr>info := Some (log_New multiOut ''INFO:  '' flags)\<rparr>
                                         else l)
                                in if level l = InfoLevel then (l, None)
                                   else
                                     (let l = l\<lparr>debug := Some (log_New storage ''DEBUG: '' flags)\<rparr>;
                                          l = (if verbose l
                                               then l\<lparr>debug := Some (log_New multiOut ''DEBUG: '' flags)\<rparr>
                                               else l)
                                      in (l, None)))))))"

text \<open>
  The two prefixes. Both test the level of the logger, not the severity of the
  call. \<^verbatim>\<open>caller\<close> prints \<^verbatim>\<open>???\<close> and line 0 when the call site is unknown.
\<close>

definition pid :: "env \<Rightarrow> logger \<Rightarrow> string" where
  "pid e l =
     (let p = [] in
      if level l = DebugLevel then ''['' @ fmt_d (Getpid e) @ ''] '' else p)"

definition caller :: "env \<Rightarrow> logger \<Rightarrow> string" where
  "caller e l =
     (let c = [] in
      if level l = DebugLevel
      then (case (case Caller e of None \<Rightarrow> (''???'', 0) | Some fl \<Rightarrow> fl) of
              (file, line) \<Rightarrow> file @ '':'' @ fmt_d line @ '' '')
      else c)"

definition compose :: "env \<Rightarrow> logger \<Rightarrow> arg list \<Rightarrow> string" where
  "compose e l msg = Sprint ([Str (pid e l), Str (caller e l)] @ msg)"

definition composef :: "env \<Rightarrow> logger \<Rightarrow> string \<Rightarrow> arg list \<Rightarrow> string" where
  "composef e l format msg =
     Sprint [Str (pid e l), Str (caller e l), Str (Sprintf e format msg)]"

text \<open>The ten methods. Each returns at once when its guard holds.\<close>

definition Fatal :: "env \<Rightarrow> logger \<Rightarrow> arg list \<Rightarrow> world \<Rightarrow> outcome" where
  "Fatal e l msg wd =
     (case fatal l of None \<Rightarrow> Returns wd
      | Some lg \<Rightarrow> log_Fatal e lg [Str (compose e l msg)] wd)"

definition Fatalf :: "env \<Rightarrow> logger \<Rightarrow> string \<Rightarrow> arg list \<Rightarrow> world \<Rightarrow> outcome" where
  "Fatalf e l format msg wd =
     (case fatal l of None \<Rightarrow> Returns wd
      | Some lg \<Rightarrow> log_Fatal e lg [Str (composef e l format msg)] wd)"

definition Error :: "env \<Rightarrow> logger \<Rightarrow> arg list \<Rightarrow> world \<Rightarrow> outcome" where
  "Error e l msg wd =
     (if level l < ErrorLevel \<or> error l = None then Returns wd
      else log_Print e (the (error l)) [Str (compose e l msg)] wd)"

definition Errorf :: "env \<Rightarrow> logger \<Rightarrow> string \<Rightarrow> arg list \<Rightarrow> world \<Rightarrow> outcome" where
  "Errorf e l format msg wd =
     (if level l < ErrorLevel \<or> error l = None then Returns wd
      else log_Print e (the (error l)) [Str (composef e l format msg)] wd)"

definition Warn :: "env \<Rightarrow> logger \<Rightarrow> arg list \<Rightarrow> world \<Rightarrow> outcome" where
  "Warn e l msg wd =
     (if level l < WarnLevel \<or> warn l = None then Returns wd
      else log_Print e (the (warn l)) [Str (compose e l msg)] wd)"

definition Warnf :: "env \<Rightarrow> logger \<Rightarrow> string \<Rightarrow> arg list \<Rightarrow> world \<Rightarrow> outcome" where
  "Warnf e l format msg wd =
     (if level l < WarnLevel \<or> warn l = None then Returns wd
      else log_Print e (the (warn l)) [Str (composef e l format msg)] wd)"

definition Info :: "env \<Rightarrow> logger \<Rightarrow> arg list \<Rightarrow> world \<Rightarrow> outcome" where
  "Info e l msg wd =
     (if level l < InfoLevel \<or> info l = None then Returns wd
      else log_Print e (the (info l)) [Str (compose e l msg)] wd)"

definition Infof :: "env \<Rightarrow> logger \<Rightarrow> string \<Rightarrow> arg list \<Rightarrow> world \<Rightarrow> outcome" where
  "Infof e l format msg wd =
     (if level l < InfoLevel \<or> info l = None then Returns wd
      else log_Print e (the (info l)) [Str (composef e l format msg)] wd)"

definition Debug :: "env \<Rightarrow> logger \<Rightarrow> arg list \<Rightarrow> world \<Rightarrow> outcome" where
  "Debug e l msg wd =
     (if level l < DebugLevel \<or> debug l = None then Returns wd
      else log_Print e (the (debug l)) [Str (compose e l msg)] wd)"

definition Debugf :: "env \<Rightarrow> logger \<Rightarrow> string \<Rightarrow> arg list \<Rightarrow> world \<Rightarrow> outcome" where
  "Debugf e l format msg wd =
     (if level l < DebugLevel \<or> debug l = None then Returns wd
      else log_Print e (the (debug l)) [Str (composef e l format msg)] wd)"

section \<open>Describing what a call wrote\<close>

text \<open>
  The line a call leaves behind: the severity tag, the date, the time and the
  composed text, ended by a newline.
\<close>

definition entry :: "env \<Rightarrow> string \<Rightarrow> string \<Rightarrow> string" where
  "entry e tag body = tag @ Now_date e @ '' '' @ Now_time e @ '' '' @ terminated body"

definition toSink :: "string \<Rightarrow> world \<Rightarrow> world" where
  "toSink p wd = wd\<lparr>sink_bytes := sink_bytes wd @ p\<rparr>"

definition toStdout :: "string \<Rightarrow> world \<Rightarrow> world" where
  "toStdout p wd = wd\<lparr>stdout_bytes := stdout_bytes wd @ p\<rparr>"

definition toStderr :: "string \<Rightarrow> world \<Rightarrow> world" where
  "toStderr p wd = wd\<lparr>stderr_bytes := stderr_bytes wd @ p\<rparr>"

text \<open>
  Where a line ends up. \<open>sinkThenStderr\<close> and \<open>sinkThenStdout\<close>: the sink comes
  first; when it refuses, the console stream is not written either; when it
  accepts, the console stream receives the line unless it refuses it on its own
  account. \<open>sinkOnly\<close>, \<open>stderrOnly\<close> and \<open>stdoutOnly\<close>: one destination, which
  receives the line unless it refuses it.
\<close>

definition sinkThenStderr :: "string \<Rightarrow> world \<Rightarrow> world" where
  "sinkThenStderr p wd =
     (if sink_fails wd then wd
      else if stderr_fails wd then toSink p wd
      else toStderr p (toSink p wd))"

definition sinkThenStdout :: "string \<Rightarrow> world \<Rightarrow> world" where
  "sinkThenStdout p wd =
     (if sink_fails wd then wd
      else if stdout_fails wd then toSink p wd
      else toStdout p (toSink p wd))"

definition sinkOnly :: "string \<Rightarrow> world \<Rightarrow> world" where
  "sinkOnly p wd = (if sink_fails wd then wd else toSink p wd)"

definition stderrOnly :: "string \<Rightarrow> world \<Rightarrow> world" where
  "stderrOnly p wd = (if stderr_fails wd then wd else toStderr p wd)"

definition stdoutOnly :: "string \<Rightarrow> world \<Rightarrow> world" where
  "stdoutOnly p wd = (if stdout_fails wd then wd else toStdout p wd)"

text \<open>
  A sample environment, the world before anything was written, with every
  destination accepting, and the same world with a sink that refuses.
\<close>

definition sampleEnv :: env where
  "sampleEnv = \<lparr>Getpid = 4321, Caller = Some (''/src/app/main.go'', 27),
                 Now_date = ''2017/03/01'', Now_time = ''10:20:30'',
                 Sprintf = (\<lambda>format msg. format)\<rparr>"

definition emptyWorld :: world where
  "emptyWorld = \<lparr>sink_bytes = [], stdout_bytes = [], stderr_bytes = [],
                  sink_fails = False, stdout_fails = False, stderr_fails = False\<rparr>"

definition brokenSinkWorld :: world where
  "brokenSinkWorld = emptyWorld\<lparr>sink_fails := True\<rparr>"

text \<open>
  The writer that \<^verbatim>\<open>New\<close> calls \<^verbatim>\<open>storage\<close>, and the logger that \<^verbatim>\<open>New\<close> returns
  for a level that parsed, written as one record: a severity has its writer
  exactly when the level reaches it.
\<close>

definition storageOf :: "writer option \<Rightarrow> writer" where
  "storageOf wr = (case wr of None \<Rightarrow> Discard | Some x \<Rightarrow> x)"

definition builtLogger :: "writer option \<Rightarrow> Level \<Rightarrow> bool \<Rightarrow> logger" where
  "builtLogger wr lv v =
     \<lparr>level = lv, w = wr, verbose = v,
      debug = (if DebugLevel \<le> lv
               then Some (log_New (if v then MultiWriter [storageOf wr, Stdout] else storageOf wr)
                            ''DEBUG: '' (Ldate OR Ltime))
               else None),
      info = (if InfoLevel \<le> lv
              then Some (log_New (if v then MultiWriter [storageOf wr, Stdout] else storageOf wr)
                           ''INFO:  '' (Ldate OR Ltime))
              else None),
      warn = (if WarnLevel \<le> lv
              then Some (log_New (MultiWriter [storageOf wr, Stderr]) ''WARN:  '' (Ldate OR Ltime))
              else None),
      error = (if ErrorLevel \<le> lv
               then Some (log_New (MultiWriter [storageOf wr, Stderr]) ''ERROR: '' (Ldate OR Ltime))
               else None),
      fatal = Some (log_New (MultiWriter [storageOf wr, Stderr]) ''FATAL: '' (Ldate OR Ltime))\<rparr>"




section \<open>Auxiliary facts\<close>

lemmas Level_defs = DisabledLevel_def ErrorLevel_def WarnLevel_def InfoLevel_def DebugLevel_def


lemma levelOfStr_ok:
  "levelOfStr s = (lv, None) \<Longrightarrow> lv \<in> set definedLevels"
  by (auto simp: levelOfStr_def definedLevels_def Let_def split: if_splits)

lemma flags_simps: "(Ldate OR Ltime) AND Ldate \<noteq> 0" "(Ldate OR Ltime) AND Ltime \<noteq> 0"
  by (simp_all add: Ldate_def Ltime_def)

lemma log_Output_entry:
  "log_Output e (log_New out tag (Ldate OR Ltime)) s wd = Write out (entry e tag s) wd"
  using flags_simps by (simp add: log_Output_def log_New_def formatHeader_def entry_def)

lemma Sprint_single: "Sprint [Str s] = s"
  by (simp add: Sprint_def)

lemma doPrint_after_string: "doPrint first True as = doPrint True False as"
  by (cases as) simp_all

lemma compose_eq: "compose e l msg = pid e l @ caller e l @ Sprint msg"
  by (simp add: compose_def Sprint_def doPrint_after_string)

lemma composef_eq: "composef e l format msg = pid e l @ caller e l @ Sprintf e format msg"
  by (simp add: composef_def Sprint_def)


lemma fmt_d_0: "fmt_d 0 = ''0''"
  by (simp add: fmt_d_def decimal.simps digit_def)

lemma New_fails:
  "snd (levelOfStr s) \<noteq> None \<Longrightarrow>
   New wr s v = (\<lparr>level = 0, w = wr, verbose = v, debug = None, info = None,
                  warn = None, error = None, fatal = None\<rparr>, snd (levelOfStr s))"
  by (cases "levelOfStr s") (auto simp: New_def)

lemma New_valid:
  "levelOfStr s = (lv, None) \<Longrightarrow> New wr s v = (builtLogger wr lv v, None)"
  apply (frule levelOfStr_ok)
  apply (auto simp: New_def Let_def storageOf_def builtLogger_def definedLevels_def Level_defs)
  done

lemma built_sel:
  "level (builtLogger wr lv v) = lv"
  "fatal (builtLogger wr lv v) =
     Some (log_New (MultiWriter [storageOf wr, Stderr]) ''FATAL: '' (Ldate OR Ltime))"
  "error (builtLogger wr lv v) =
     (if ErrorLevel \<le> lv
      then Some (log_New (MultiWriter [storageOf wr, Stderr]) ''ERROR: '' (Ldate OR Ltime))
      else None)"
  "warn (builtLogger wr lv v) =
     (if WarnLevel \<le> lv
      then Some (log_New (MultiWriter [storageOf wr, Stderr]) ''WARN:  '' (Ldate OR Ltime))
      else None)"
  "info (builtLogger wr lv v) =
     (if InfoLevel \<le> lv
      then Some (log_New (if v then MultiWriter [storageOf wr, Stdout] else storageOf wr)
                   ''INFO:  '' (Ldate OR Ltime))
      else None)"
  "debug (builtLogger wr lv v) =
     (if DebugLevel \<le> lv
      then Some (log_New (if v then MultiWriter [storageOf wr, Stdout] else storageOf wr)
                   ''DEBUG: '' (Ldate OR Ltime))
      else None)"
  by (simp_all add: builtLogger_def)

lemma New_success:
  assumes "New wr s v = (l, None)"
  shows "levelOfStr s = (level l, None) \<and> l = builtLogger wr (level l) v"
proof (cases "levelOfStr s")
  case (Pair lv err)
  show ?thesis
  proof (cases err)
    case None
    with Pair have "New wr s v = (builtLogger wr lv v, None)"
      by (simp add: New_valid)
    with assms have "l = builtLogger wr lv v" by simp
    then show ?thesis using Pair None by (simp add: built_sel)
  next
    case (Some x)
    with Pair have "snd (levelOfStr s) \<noteq> None" by simp
    from New_fails [OF this, of wr v] assms Pair Some show ?thesis by simp
  qed
qed

lemma New_fields:
  assumes "New wr s v = (l, None)"
  shows "fatal l = Some (log_New (MultiWriter [storageOf wr, Stderr]) ''FATAL: '' (Ldate OR Ltime))"
    and "error l = (if ErrorLevel \<le> level l
                    then Some (log_New (MultiWriter [storageOf wr, Stderr]) ''ERROR: '' (Ldate OR Ltime))
                    else None)"
    and "warn l = (if WarnLevel \<le> level l
                   then Some (log_New (MultiWriter [storageOf wr, Stderr]) ''WARN:  '' (Ldate OR Ltime))
                   else None)"
    and "info l = (if InfoLevel \<le> level l
                   then Some (log_New (if v then MultiWriter [storageOf wr, Stdout] else storageOf wr)
                                ''INFO:  '' (Ldate OR Ltime))
                   else None)"
    and "debug l = (if DebugLevel \<le> level l
                    then Some (log_New (if v then MultiWriter [storageOf wr, Stdout] else storageOf wr)
                                 ''DEBUG: '' (Ldate OR Ltime))
                    else None)"
    and "levelOfStr s = (level l, None)"
proof -
  from New_success [OF assms]
  have l: "l = builtLogger wr (level l) v" and p: "levelOfStr s = (level l, None)" by simp_all
  show "fatal l = Some (log_New (MultiWriter [storageOf wr, Stderr]) ''FATAL: '' (Ldate OR Ltime))"
    by (subst l) (simp add: built_sel)
  show "error l = (if ErrorLevel \<le> level l
                    then Some (log_New (MultiWriter [storageOf wr, Stderr]) ''ERROR: '' (Ldate OR Ltime))
                    else None)"
    by (subst l) (simp add: built_sel)
  show "warn l = (if WarnLevel \<le> level l
                   then Some (log_New (MultiWriter [storageOf wr, Stderr]) ''WARN:  '' (Ldate OR Ltime))
                   else None)"
    by (subst l) (simp add: built_sel)
  show "info l = (if InfoLevel \<le> level l
                   then Some (log_New (if v then MultiWriter [storageOf wr, Stdout] else storageOf wr)
                                ''INFO:  '' (Ldate OR Ltime))
                   else None)"
    by (subst l) (simp add: built_sel)
  show "debug l = (if DebugLevel \<le> level l
                    then Some (log_New (if v then MultiWriter [storageOf wr, Stdout] else storageOf wr)
                                 ''DEBUG: '' (Ldate OR Ltime))
                    else None)"
    by (subst l) (simp add: built_sel)
  show "levelOfStr s = (level l, None)" by (rule p)
qed

lemma New_at:
  "New wr ''disabled'' v = (builtLogger wr DisabledLevel v, None)"
  "New wr ''error'' v = (builtLogger wr ErrorLevel v, None)"
  "New wr ''warning'' v = (builtLogger wr WarnLevel v, None)"
  "New wr ''info'' v = (builtLogger wr InfoLevel v, None)"
  "New wr ''debug'' v = (builtLogger wr DebugLevel v, None)"
  by (simp_all add: New_valid levelOfStr_def)

lemmas write_simps = log_Print_def log_Fatal_def log_Output_entry Sprint_single
  toStderr_def toSink_def toStdout_def storageOf_def
  sinkThenStderr_def sinkThenStdout_def sinkOnly_def stderrOnly_def stdoutOnly_def

lemmas eval_simps = built_sel entry_def compose_eq composef_eq pid_def caller_def Level_defs
  sampleEnv_def emptyWorld_def brokenSinkWorld_def terminated_def toSink_def toStderr_def
  toStdout_def sinkThenStderr_def sinkThenStdout_def sinkOnly_def stderrOnly_def stdoutOnly_def
  Sprint_def
  fmt_d_def decimal.simps digit_def


section \<open>Level conversion\<close>

text \<open>
  C1. Round trip of the level strings: each of the five levels, turned into its
  string and parsed back by \<open>levelOfStr\<close>, is returned unchanged and without an
  error; and each of the five level strings parses without an error to a level
  whose string is that string again.
\<close>

theorem level_string_round_trip:
  "levelOfStr (Level_String DisabledLevel) = (DisabledLevel, None) \<and>
   levelOfStr (Level_String ErrorLevel) = (ErrorLevel, None) \<and>
   levelOfStr (Level_String WarnLevel) = (WarnLevel, None) \<and>
   levelOfStr (Level_String InfoLevel) = (InfoLevel, None) \<and>
   levelOfStr (Level_String DebugLevel) = (DebugLevel, None) \<and>
   snd (levelOfStr ''disabled'') = None \<and>
   Level_String (fst (levelOfStr ''disabled'')) = ''disabled'' \<and>
   snd (levelOfStr ''error'') = None \<and>
   Level_String (fst (levelOfStr ''error'')) = ''error'' \<and>
   snd (levelOfStr ''warning'') = None \<and>
   Level_String (fst (levelOfStr ''warning'')) = ''warning'' \<and>
   snd (levelOfStr ''info'') = None \<and>
   Level_String (fst (levelOfStr ''info'')) = ''info'' \<and>
   snd (levelOfStr ''debug'') = None \<and>
   Level_String (fst (levelOfStr ''debug'')) = ''debug''"
  by (simp add: levelOfStr_def Level_String_def Level_defs)

text \<open>
  C3, as amended. For every input other than the five literals, the empty string
  included, \<open>levelOfStr\<close> returns the level it starts from, \<open>InfoLevel\<close>, together
  with an error whose text names the input and lists the five valid options. The
  source has no Invalid sentinel among its levels.
\<close>

theorem levelOfStr_rejects_with_Info:
  assumes "s \<notin> set [''disabled'', ''error'', ''warning'', ''info'', ''debug'']"
  shows "levelOfStr s =
           (InfoLevel,
            Some (ErrorString (''invalid log level: '' @ s @
                               ''; use one of: disabled | error | warning | info | debug '')))"
  using assms by (simp add: levelOfStr_def)

text \<open>The amended statement at the empty string.\<close>

theorem levelOfStr_rejects_with_Info_witness:
  "[] \<notin> set [''disabled'', ''error'', ''warning'', ''info'', ''debug''] \<and>
   levelOfStr [] =
     (InfoLevel,
      Some (ErrorString
        ''invalid log level: ; use one of: disabled | error | warning | info | debug ''))"
proof -
  have h: "[] \<notin> set [''disabled'', ''error'', ''warning'', ''info'', ''debug'']" by simp
  from levelOfStr_rejects_with_Info [OF h] h show ?thesis by simp
qed

text \<open>
  C3 as stated fails: the level returned for \<^verbatim>\<open>"nonsense"\<close> is \<open>InfoLevel\<close>, one of
  the five defined levels and the very level that \<^verbatim>\<open>"info"\<close> parses to, not a
  sentinel outside them.
\<close>

theorem levelOfStr_nonsense_counterexample:
  "fst (levelOfStr ''nonsense'') = InfoLevel \<and> InfoLevel \<in> set definedLevels \<and>
   fst (levelOfStr ''nonsense'') = fst (levelOfStr ''info'') \<and>
   snd (levelOfStr ''nonsense'') \<noteq> None"
  by (simp add: levelOfStr_def definedLevels_def)

text \<open>
  C8. \<open>Level_String\<close> gives each of the five levels its exact string, and the
  empty string for every value that is not one of the five, so also for an
  Invalid sentinel, whatever its number, and for 999. As a function on all
  integers it has a result everywhere.
\<close>

theorem Level_String_total:
  "Level_String DisabledLevel = ''disabled'' \<and>
   Level_String ErrorLevel = ''error'' \<and>
   Level_String WarnLevel = ''warning'' \<and>
   Level_String InfoLevel = ''info'' \<and>
   Level_String DebugLevel = ''debug'' \<and>
   (l \<notin> set definedLevels \<longrightarrow> Level_String l = []) \<and>
   Level_String 999 = []"
  by (simp add: Level_String_def definedLevels_def Level_defs)

text \<open>The value \<open>-1\<close> is none of the five levels and has the empty string.\<close>

theorem Level_String_total_witness:
  "- 1 \<notin> set definedLevels \<and> Level_String (- 1) = []"
  using Level_String_total [of "- 1"] by (simp add: definedLevels_def Level_defs)

text \<open>
  C9. \<open>Level_Validate\<close> returns no error for exactly the five defined levels; for
  every other value, 999 among them, it returns the error that carries that
  number.
\<close>

theorem Level_Validate_exactly_five:
  "((Level_Validate l = None) = (l \<in> set definedLevels)) \<and>
   (l \<notin> set definedLevels \<longrightarrow> Level_Validate l = Some (InvalidLevelValue l)) \<and>
   Level_Validate DisabledLevel = None \<and>
   Level_Validate ErrorLevel = None \<and>
   Level_Validate WarnLevel = None \<and>
   Level_Validate InfoLevel = None \<and>
   Level_Validate DebugLevel = None \<and>
   Level_Validate 999 = Some (InvalidLevelValue 999)"
  by (simp add: Level_Validate_def definedLevels_def Level_defs)

text \<open>The value 5, just past \<open>DebugLevel\<close>, is rejected with its number.\<close>

theorem Level_Validate_exactly_five_witness:
  "5 \<notin> set definedLevels \<and> Level_Validate 5 = Some (InvalidLevelValue 5)"
  using Level_Validate_exactly_five [of 5] by (simp add: definedLevels_def Level_defs)

section \<open>Construction and the fatal path\<close>

text \<open>
  C2, as amended. When the level string does not parse, \<open>New\<close> returns a non-nil
  error together with a logger whose fatal writer is still nil: \<open>Fatal\<close> and
  \<open>Fatalf\<close> on it return at once, write nothing and do not end the process.
\<close>

theorem New_parse_error_leaves_Fatal_unwired:
  assumes "snd (levelOfStr s) \<noteq> None"
  shows "snd (New wr s v) \<noteq> None \<and>
         fatal (fst (New wr s v)) = None \<and>
         Fatal e (fst (New wr s v)) msg wd = Returns wd \<and>
         Fatalf e (fst (New wr s v)) format msg wd = Returns wd"
  using assms by (simp add: New_fails [OF assms] Fatal_def Fatalf_def)

text \<open>The amended statement at \<^verbatim>\<open>"bogus-level"\<close>.\<close>

theorem New_parse_error_leaves_Fatal_unwired_witness:
  "snd (levelOfStr ''bogus-level'') \<noteq> None \<and>
   snd (New (Some Sink) ''bogus-level'' False) \<noteq> None \<and>
   fatal (fst (New (Some Sink) ''bogus-level'' False)) = None \<and>
   Fatal sampleEnv (fst (New (Some Sink) ''bogus-level'' False)) [Str ''abort''] emptyWorld =
     Returns emptyWorld \<and>
   Fatalf sampleEnv (fst (New (Some Sink) ''bogus-level'' False)) ''abort: %s'' [Str ''abort'']
     emptyWorld = Returns emptyWorld"
proof -
  have h: "snd (levelOfStr ''bogus-level'') \<noteq> None" by (simp add: levelOfStr_def)
  from New_parse_error_leaves_Fatal_unwired
         [OF h, of "Some Sink" False sampleEnv "[Str ''abort'']" emptyWorld "''abort: %s''"] h
  show ?thesis by simp
qed

text \<open>
  C2 as stated fails: on the logger that \<open>New\<close> returns for \<^verbatim>\<open>"bogus-level"\<close>, a
  call of \<open>Fatal\<close> or \<open>Fatalf\<close> returns to its caller and leaves the sink and both
  console streams empty.
\<close>

theorem New_bogus_level_Fatal_counterexample:
  "snd (New (Some Sink) ''bogus-level'' False) \<noteq> None \<and>
   Fatal sampleEnv (fst (New (Some Sink) ''bogus-level'' False)) [Str ''abort''] emptyWorld =
     Returns emptyWorld \<and>
   Fatalf sampleEnv (fst (New (Some Sink) ''bogus-level'' False)) ''abort: %s'' [Str ''abort'']
     emptyWorld = Returns emptyWorld"
  by (simp add: New_def levelOfStr_def Fatal_def Fatalf_def)




section \<open>Routing\<close>




text \<open>
  C6. A Debug, Info, Warn or Error call, plain or formatted, returns with the
  world unchanged whenever the level of the logger is below the severity of the
  call or the writer of that severity is nil; and on a logger built for
  \<^verbatim>\<open>"disabled"\<close> this holds for all four severities.
\<close>

theorem disabled_severity_is_noop:
  "(level l < ErrorLevel \<or> error l = None \<longrightarrow>
      Error e l msg wd = Returns wd \<and> Errorf e l format msg wd = Returns wd) \<and>
   (level l < WarnLevel \<or> warn l = None \<longrightarrow>
      Warn e l msg wd = Returns wd \<and> Warnf e l format msg wd = Returns wd) \<and>
   (level l < InfoLevel \<or> info l = None \<longrightarrow>
      Info e l msg wd = Returns wd \<and> Infof e l format msg wd = Returns wd) \<and>
   (level l < DebugLevel \<or> debug l = None \<longrightarrow>
      Debug e l msg wd = Returns wd \<and> Debugf e l format msg wd = Returns wd) \<and>
   (New wr ''disabled'' v = (l, None) \<longrightarrow>
      Error e l msg wd = Returns wd \<and> Warn e l msg wd = Returns wd \<and>
      Info e l msg wd = Returns wd \<and> Debug e l msg wd = Returns wd)"
proof -
  have "New wr ''disabled'' v = (l, None) \<longrightarrow>
      Error e l msg wd = Returns wd \<and> Warn e l msg wd = Returns wd \<and>
      Info e l msg wd = Returns wd \<and> Debug e l msg wd = Returns wd"
  proof
    assume "New wr ''disabled'' v = (l, None)"
    then have "l = builtLogger wr DisabledLevel v" by (simp add: New_at)
    then have "level l = DisabledLevel" by (simp add: built_sel)
    then show "Error e l msg wd = Returns wd \<and> Warn e l msg wd = Returns wd \<and>
      Info e l msg wd = Returns wd \<and> Debug e l msg wd = Returns wd"
      by (simp add: Error_def Warn_def Info_def Debug_def Level_defs)
  qed
  then show ?thesis
    by (simp add: Error_def Errorf_def Warn_def Warnf_def Info_def Infof_def Debug_def Debugf_def)
qed

text \<open>
  The logger built for \<^verbatim>\<open>"disabled"\<close>: its level is below every severity, its
  four writers are nil, and the four calls leave the world as it was.
\<close>

theorem disabled_severity_is_noop_witness:
  "level (fst (New (Some Sink) ''disabled'' True)) < ErrorLevel \<and>
   error (fst (New (Some Sink) ''disabled'' True)) = None \<and>
   warn (fst (New (Some Sink) ''disabled'' True)) = None \<and>
   info (fst (New (Some Sink) ''disabled'' True)) = None \<and>
   debug (fst (New (Some Sink) ''disabled'' True)) = None \<and>
   New (Some Sink) ''disabled'' True = (fst (New (Some Sink) ''disabled'' True), None) \<and>
   Error sampleEnv (fst (New (Some Sink) ''disabled'' True)) [Str ''hello''] emptyWorld =
     Returns emptyWorld \<and>
   Warnf sampleEnv (fst (New (Some Sink) ''disabled'' True)) ''%s'' [Str ''hello''] emptyWorld =
     Returns emptyWorld \<and>
   Info sampleEnv (fst (New (Some Sink) ''disabled'' True)) [Str ''hello''] emptyWorld =
     Returns emptyWorld \<and>
   Debugf sampleEnv (fst (New (Some Sink) ''disabled'' True)) ''%s'' [Str ''hello''] emptyWorld =
     Returns emptyWorld"
proof -
  have a: "level (fst (New (Some Sink) ''disabled'' True)) < ErrorLevel"
    "level (fst (New (Some Sink) ''disabled'' True)) < WarnLevel"
    "level (fst (New (Some Sink) ''disabled'' True)) < InfoLevel"
    "level (fst (New (Some Sink) ''disabled'' True)) < DebugLevel"
    "error (fst (New (Some Sink) ''disabled'' True)) = None"
    "warn (fst (New (Some Sink) ''disabled'' True)) = None"
    "info (fst (New (Some Sink) ''disabled'' True)) = None"
    "debug (fst (New (Some Sink) ''disabled'' True)) = None"
    "New (Some Sink) ''disabled'' True = (fst (New (Some Sink) ''disabled'' True), None)"
    by (simp_all add: New_at built_sel Level_defs)
  from disabled_severity_is_noop
         [of "fst (New (Some Sink) ''disabled'' True)" sampleEnv "[Str ''hello'']" emptyWorld
             "''%s''" "Some Sink" True] a
  show ?thesis by simp
qed

section \<open>Message composition\<close>

text \<open>
  C7. When the level of the logger is Debug, the composed text is the process id
  in brackets, then the call site as file, colon, line, each followed by a
  space, then the message body; an unknown call site is printed as
  \<^verbatim>\<open>???:0 \<close>. At any other level the composed text is the body alone. The test
  is on the level of the logger: an Error call on a logger built for
  \<^verbatim>\<open>"debug"\<close> hands the line with both prefixes to the sink and then to
  standard error.
\<close>

theorem compose_prefixes:
  "(level l = DebugLevel \<longrightarrow>
      compose e l msg =
        ''['' @ fmt_d (Getpid e) @ ''] '' @
        (case Caller e of None \<Rightarrow> ''???:0 ''
         | Some (file, line) \<Rightarrow> file @ '':'' @ fmt_d line @ '' '') @
        Sprint msg \<and>
      composef e l format msg =
        ''['' @ fmt_d (Getpid e) @ ''] '' @
        (case Caller e of None \<Rightarrow> ''???:0 ''
         | Some (file, line) \<Rightarrow> file @ '':'' @ fmt_d line @ '' '') @
        Sprintf e format msg) \<and>
   (level l \<noteq> DebugLevel \<longrightarrow>
      compose e l msg = Sprint msg \<and> composef e l format msg = Sprintf e format msg) \<and>
   (New (Some Sink) ''debug'' v = (l, None) \<longrightarrow>
      Error e l msg wd =
        Returns (sinkThenStderr
                   (entry e ''ERROR: ''
                      (''['' @ fmt_d (Getpid e) @ ''] '' @
                       (case Caller e of None \<Rightarrow> ''???:0 ''
                        | Some (file, line) \<Rightarrow> file @ '':'' @ fmt_d line @ '' '') @
                       Sprint msg))
                   wd))"
proof -
  have c: "level l = DebugLevel \<Longrightarrow>
      compose e l msg =
        ''['' @ fmt_d (Getpid e) @ ''] '' @
        (case Caller e of None \<Rightarrow> ''???:0 ''
         | Some (file, line) \<Rightarrow> file @ '':'' @ fmt_d line @ '' '') @
        Sprint msg"
    by (simp add: compose_eq pid_def caller_def fmt_d_0 split: option.split prod.split)
  have "New (Some Sink) ''debug'' v = (l, None) \<longrightarrow>
      Error e l msg wd =
        Returns (sinkThenStderr
                   (entry e ''ERROR: ''
                      (''['' @ fmt_d (Getpid e) @ ''] '' @
                       (case Caller e of None \<Rightarrow> ''???:0 ''
                        | Some (file, line) \<Rightarrow> file @ '':'' @ fmt_d line @ '' '') @
                       Sprint msg))
                   wd)"
  proof
    assume n: "New (Some Sink) ''debug'' v = (l, None)"
    then have "l = builtLogger (Some Sink) DebugLevel v" by (simp add: New_at)
    then have lv: "level l = DebugLevel" by (simp add: built_sel)
    have "Error e l msg wd =
        Returns (sinkThenStderr (entry e ''ERROR: '' (compose e l msg)) wd)"
      using lv by (simp add: Error_def New_fields(2) [OF n] write_simps Level_defs)
    then show "Error e l msg wd =
        Returns (sinkThenStderr
                   (entry e ''ERROR: ''
                      (''['' @ fmt_d (Getpid e) @ ''] '' @
                       (case Caller e of None \<Rightarrow> ''???:0 ''
                        | Some (file, line) \<Rightarrow> file @ '':'' @ fmt_d line @ '' '') @
                       Sprint msg))
                   wd)"
      by (simp only: c [OF lv])
  qed
  moreover have "level l = DebugLevel \<longrightarrow>
      compose e l msg =
        ''['' @ fmt_d (Getpid e) @ ''] '' @
        (case Caller e of None \<Rightarrow> ''???:0 ''
         | Some (file, line) \<Rightarrow> file @ '':'' @ fmt_d line @ '' '') @
        Sprint msg \<and>
      composef e l format msg =
        ''['' @ fmt_d (Getpid e) @ ''] '' @
        (case Caller e of None \<Rightarrow> ''???:0 ''
         | Some (file, line) \<Rightarrow> file @ '':'' @ fmt_d line @ '' '') @
        Sprintf e format msg"
    by (simp add: compose_eq composef_eq pid_def caller_def fmt_d_0
        split: option.split prod.split)
  moreover have "level l \<noteq> DebugLevel \<longrightarrow>
      compose e l msg = Sprint msg \<and> composef e l format msg = Sprintf e format msg"
    by (simp add: compose_eq composef_eq pid_def caller_def)
  ultimately show ?thesis by blast
qed

text \<open>
  In the sample environment: the composed text at level Debug with a known and
  with an unknown call site, the same message at level Info, and the line of an
  Error call on the Debug logger.
\<close>

theorem compose_prefixes_witness:
  "level (fst (New (Some Sink) ''debug'' False)) = DebugLevel \<and>
   compose sampleEnv (fst (New (Some Sink) ''debug'' False))
     [Str ''started'', Val ''7'', Val ''8''] = ''[4321] /src/app/main.go:27 started7 8'' \<and>
   compose (sampleEnv\<lparr>Caller := None\<rparr>) (fst (New (Some Sink) ''debug'' False))
     [Str ''started'', Val ''7'', Val ''8''] = ''[4321] ???:0 started7 8'' \<and>
   level (fst (New (Some Sink) ''info'' False)) \<noteq> DebugLevel \<and>
   compose sampleEnv (fst (New (Some Sink) ''info'' False))
     [Str ''started'', Val ''7'', Val ''8''] = ''started7 8'' \<and>
   New (Some Sink) ''debug'' False = (fst (New (Some Sink) ''debug'' False), None) \<and>
   Error sampleEnv (fst (New (Some Sink) ''debug'' False))
     [Str ''started'', Val ''7'', Val ''8''] emptyWorld =
     Returns (emptyWorld
       \<lparr>sink_bytes :=
          ''ERROR: 2017/03/01 10:20:30 [4321] /src/app/main.go:27 started7 8'' @ [CHR 0x0A],
        stderr_bytes :=
          ''ERROR: 2017/03/01 10:20:30 [4321] /src/app/main.go:27 started7 8'' @ [CHR 0x0A]\<rparr>)"
proof -
  have a: "level (fst (New (Some Sink) ''debug'' False)) = DebugLevel"
    "level (fst (New (Some Sink) ''info'' False)) \<noteq> DebugLevel"
    "New (Some Sink) ''debug'' False = (fst (New (Some Sink) ''debug'' False), None)"
    by (simp_all add: New_at built_sel Level_defs)
  from compose_prefixes
         [of "fst (New (Some Sink) ''debug'' False)" sampleEnv
             "[Str ''started'', Val ''7'', Val ''8'']" "''%s''" False emptyWorld]
       compose_prefixes
         [of "fst (New (Some Sink) ''debug'' False)" "sampleEnv\<lparr>Caller := None\<rparr>"
             "[Str ''started'', Val ''7'', Val ''8'']" "''%s''" False emptyWorld]
       compose_prefixes
         [of "fst (New (Some Sink) ''info'' False)" sampleEnv
             "[Str ''started'', Val ''7'', Val ''8'']" "''%s''" False emptyWorld]
       a
  show ?thesis by (simp add: New_at eval_simps)
qed

section \<open>The absent sink\<close>



end
